theory Spec2Isabelle
  imports Complex_Main
begin

section \<open>The external world: device control client, storage library, logger\<close>

text \<open>
  Every call that \<^verbatim>\<open>lgswitch.py\<close> makes into the \<^verbatim>\<open>bscpylgtv\<close> library is
  recorded, together with whether it returned or raised. The exceptions modelled are the
  ones derived from Python's \<^verbatim>\<open>Exception\<close>, which is what both \<^verbatim>\<open>except Exception\<close>
  and the bare \<^verbatim>\<open>except:\<close> of the source catch. Objects of the library are taken to
  be truthy, as plain Python objects are.
\<close>

datatype call =
    NewStorage          \<comment> \<open>\<^verbatim>\<open>StorageSqliteDict(storage_file)\<close>\<close>
  | AsyncInit           \<comment> \<open>\<^verbatim>\<open>storage.async_init()\<close>\<close>
  | NewClient           \<comment> \<open>\<^verbatim>\<open>WebOsClient(tv_ip, storage=...)\<close>\<close>
  | CreateClient        \<comment> \<open>\<^verbatim>\<open>WebOsClient.create(tv_ip, storage=...)\<close>\<close>
  | Connect             \<comment> \<open>\<^verbatim>\<open>client.connect()\<close>\<close>
  | TurnScreenOn        \<comment> \<open>\<^verbatim>\<open>client.turn_screen_on()\<close>\<close>
  | LaunchApp string    \<comment> \<open>\<^verbatim>\<open>client.launch_app(hdmi_app)\<close>\<close>
  | Disconnect          \<comment> \<open>\<^verbatim>\<open>client.disconnect()\<close>\<close>

datatype outcome = Returned | Raised

text \<open>
  A behaviour of the library decides the outcome of a call from the whole history of
  earlier calls and their outcomes, so that theorems quantified over behaviours cover
  every way the television and the network can react.
\<close>

type_synonym behaviour = "(call \<times> outcome) list \<Rightarrow> call \<Rightarrow> outcome"

datatype level = DEBUG | INFO | WARNING | ERROR

datatype msg =
    StorageInitialized
  | ConnectingToTV string
  | ConnectedToTV
  | FailedToConnect
  | DisconnectedFromTV
  | ErrorDisconnecting
  | KeyboardSwitching string string
  | TurningScreenOn
  | TurnedScreenOn
  | CouldNotTurnScreenOn
  | SwitchedTo string
  | FailedToSwitchInput
  | CheckingInitialState
  | KeyboardCurrentlyConnected string
  | KeyboardNotConnected string
  | UsbKeyboardConnected string string
  | AlreadyConnected
  | UsbKeyboardDisconnected string string
  | AlreadyDisconnected
  | StartingMonitoring
  | WatchingFor string
  | VendorProduct string string
  | MonitorStarted
  | PressCtrlC
  | ErrorInMonitorLoop
  | MonitorLoopExited
  | StoppingMonitor

text \<open>
  The world holds the history of library calls, the log records, the arguments of the
  \<^verbatim>\<open>switch_input\<close> bodies entered so far (instrumentation, in order), and the
  arguments of the \<^verbatim>\<open>switch_input\<close> coroutines handed to the event loop by
  \<^verbatim>\<open>asyncio.run_coroutine_threadsafe\<close>. How the event loop later runs the coroutines
  it was handed is not modelled.
\<close>

record world =
  trace :: "(call \<times> outcome) list"
  logged :: "(level \<times> msg) list"
  switch_calls :: "bool list"
  scheduled :: "bool list"

definition perform :: "behaviour \<Rightarrow> call \<Rightarrow> world \<Rightarrow> outcome \<times> world" where
  "perform b k w = (let r = b (trace w) k in (r, w\<lparr>trace := trace w @ [(k, r)]\<rparr>))"

definition logmsg :: "level \<Rightarrow> msg \<Rightarrow> world \<Rightarrow> world" where
  "logmsg l m w = w\<lparr>logged := logged w @ [(l, m)]\<rparr>"

section \<open>TVSwitcher\<close>

datatype handle = WebOsClient

datatype store = StorageSqliteDict

record tv_switcher =
  tv_ip :: string
  hdmi_connected :: string
  hdmi_disconnected :: string
  turn_on_screen :: bool
  client :: "handle option"
  storage :: "store option"
  cleanup_done :: bool

definition TVSwitcher_init :: "string \<Rightarrow> string \<Rightarrow> string \<Rightarrow> bool \<Rightarrow> tv_switcher" where
  "TVSwitcher_init ip app_c app_d scr =
     \<lparr>tv_ip = ip, hdmi_connected = app_c, hdmi_disconnected = app_d, turn_on_screen = scr,
      client = None, storage = None, cleanup_done = False\<rparr>"

text \<open>
  A method either returns a value or lets an exception escape to its caller. A
  \<^verbatim>\<open>try\<close> suite is a function of its own, and its \<^verbatim>\<open>except\<close> handler is the
  \<open>Raise\<close> case of the method that contains it.
\<close>

datatype 'a result = Return 'a | Raise

text \<open>
  \<^verbatim>\<open>initialize_storage\<close>: the storage object is assigned before \<^verbatim>\<open>async_init\<close> is
  awaited, so a failing \<^verbatim>\<open>async_init\<close> leaves it assigned.
\<close>

definition initialize_storage ::
  "behaviour \<Rightarrow> tv_switcher \<Rightarrow> world \<Rightarrow> unit result \<times> tv_switcher \<times> world" where
  "initialize_storage b tv w =
     (if storage tv \<noteq> None then (Return (), tv, w)
      else
        let (r1, w1) = perform b NewStorage w in
        if r1 = Raised then (Raise, tv, w1)
        else
          let tv1 = tv\<lparr>storage := Some StorageSqliteDict\<rparr>;
              (r2, w2) = perform b AsyncInit w1 in
          if r2 = Raised then (Raise, tv1, w2)
          else (Return (), tv1, logmsg INFO StorageInitialized w2))"

text \<open>The \<^verbatim>\<open>try\<close> suite of \<^verbatim>\<open>connect\<close>.\<close>

definition connect_try ::
  "behaviour \<Rightarrow> tv_switcher \<Rightarrow> world \<Rightarrow> bool result \<times> tv_switcher \<times> world" where
  "connect_try b tv w =
     (if client tv \<noteq> None then (Return True, tv, w)
      else
        let w0 = logmsg INFO (ConnectingToTV (tv_ip tv)) w;
            (r1, tv1, w1) = initialize_storage b tv w0 in
        if r1 = Raise then (Raise, tv1, w1)
        else
          let (r2, w2) = perform b NewClient w1 in
          if r2 = Raised then (Raise, tv1, w2)
          else
            let tv2 = tv1\<lparr>client := Some WebOsClient\<rparr>;
                (r3, w3) = perform b Connect w2 in
            if r3 = Raised then (Raise, tv2, w3)
            else (Return True, tv2, logmsg INFO ConnectedToTV w3))"

definition connect ::
  "behaviour \<Rightarrow> tv_switcher \<Rightarrow> world \<Rightarrow> bool result \<times> tv_switcher \<times> world" where
  "connect b tv w =
     (let (r, tv1, w1) = connect_try b tv w in
      case r of
        Return v \<Rightarrow> (Return v, tv1, w1)
      | Raise \<Rightarrow> (Return False, tv1\<lparr>client := None\<rparr>, logmsg ERROR FailedToConnect w1))"

definition disconnect ::
  "behaviour \<Rightarrow> tv_switcher \<Rightarrow> world \<Rightarrow> unit result \<times> tv_switcher \<times> world" where
  "disconnect b tv w =
     (if client tv \<noteq> None then
        let (r, w1) = perform b Disconnect w;
            w2 = (if r = Raised then logmsg WARNING ErrorDisconnecting w1
                  else logmsg INFO DisconnectedFromTV w1)
        in (Return (), tv\<lparr>client := None\<rparr>, w2)
      else (Return (), tv, w))"

definition cleanup ::
  "behaviour \<Rightarrow> tv_switcher \<Rightarrow> world \<Rightarrow> unit result \<times> tv_switcher \<times> world" where
  "cleanup b tv w =
     (if cleanup_done tv then (Return (), tv, w)
      else disconnect b (tv\<lparr>cleanup_done := True\<rparr>) w)"

text \<open>The wake step, with its own \<^verbatim>\<open>try\<close>: a failure is logged as a warning.\<close>

definition wake :: "behaviour \<Rightarrow> world \<Rightarrow> world" where
  "wake b w =
     (let (r, w1) = perform b TurnScreenOn (logmsg INFO TurningScreenOn w) in
      if r = Raised then logmsg WARNING CouldNotTurnScreenOn w1
      else logmsg INFO TurnedScreenOn w1)"

text \<open>
  The \<^verbatim>\<open>try\<close> suite of \<^verbatim>\<open>switch_input\<close>. Beside the result it gives the binding
  of the local variable \<^verbatim>\<open>client\<close> at the point where the suite was left.
\<close>

definition switch_input_try ::
  "behaviour \<Rightarrow> bool \<Rightarrow> string \<Rightarrow> tv_switcher \<Rightarrow> world \<Rightarrow>
     bool result \<times> handle option \<times> tv_switcher \<times> world" where
  "switch_input_try b conn hdmi_app tv w =
     (let (r1, tv1, w1) = initialize_storage b tv w in
      if r1 = Raise then (Raise, None, tv1, w1)
      else
        let (r2, w2) = perform b CreateClient (logmsg DEBUG (ConnectingToTV (tv_ip tv1)) w1) in
        if r2 = Raised then (Raise, None, tv1, w2)
        else
          let cl = Some WebOsClient;
              (r3, w3) = perform b Connect w2 in
          if r3 = Raised then (Raise, cl, tv1, w3)
          else
            let w4 = (if conn \<and> turn_on_screen tv1 then wake b w3 else w3);
                (r5, w5) = perform b (LaunchApp hdmi_app) w4 in
            if r5 = Raised then (Raise, cl, tv1, w5)
            else
              let (r6, w6) = perform b Disconnect (logmsg INFO (SwitchedTo hdmi_app) w5) in
              if r6 = Raised then (Raise, cl, tv1, w6)
              else (Return True, cl, tv1, w6))"

text \<open>
  \<^verbatim>\<open>switch_input\<close>: the handler logs the error and, when \<^verbatim>\<open>client\<close> is bound,
  disconnects it under a bare \<^verbatim>\<open>except: pass\<close>.
\<close>

definition switch_input ::
  "behaviour \<Rightarrow> bool \<Rightarrow> tv_switcher \<Rightarrow> world \<Rightarrow> bool result \<times> tv_switcher \<times> world" where
  "switch_input b conn tv w =
     (let hdmi_app = (if conn then hdmi_connected tv else hdmi_disconnected tv);
          state_name = (if conn then ''connected'' else ''disconnected'');
          w0 = logmsg INFO (KeyboardSwitching state_name hdmi_app)
                 (w\<lparr>switch_calls := switch_calls w @ [conn]\<rparr>);
          (r, cl, tv1, w1) = switch_input_try b conn hdmi_app tv w0 in
      case r of
        Return v \<Rightarrow> (Return v, tv1, w1)
      | Raise \<Rightarrow>
          let w2 = logmsg ERROR FailedToSwitchInput w1;
              w3 = (case cl of None \<Rightarrow> w2 | Some h \<Rightarrow> snd (perform b Disconnect w2))
          in (Return False, tv1, w3))"

section \<open>KeyboardMonitor\<close>

text \<open>
  A udev device is its property dictionary; \<^verbatim>\<open>device.get(key)\<close> is the lookup and
  \<^verbatim>\<open>device.get(key, default)\<close> the lookup with a default. \<^verbatim>\<open>str.lower()\<close> is
  modelled on ASCII, which is what udev's hexadecimal identifiers are made of.
\<close>

type_synonym device = "string \<rightharpoonup> string"

definition get_default :: "device \<Rightarrow> string \<Rightarrow> string \<Rightarrow> string" where
  "get_default device key dflt = (case device key of None \<Rightarrow> dflt | Some v \<Rightarrow> v)"

definition lower_char :: "char \<Rightarrow> char" where
  "lower_char c =
     (case map_of (zip ''ABCDEFGHIJKLMNOPQRSTUVWXYZ'' ''abcdefghijklmnopqrstuvwxyz'') c of
        Some l \<Rightarrow> l
      | None \<Rightarrow> c)"

definition lower :: "string \<Rightarrow> string" where
  "lower s = map lower_char s"

datatype event_loop = EventLoop

text \<open>
  The field \<^verbatim>\<open>tv_switcher\<close> of the monitor is passed beside the monitor's record
  where a method uses it. Timestamps (\<^verbatim>\<open>time.time()\<close>) are real numbers: the rounding
  of floating-point subtraction is not modelled.
\<close>

record keyboard_monitor =
  vendor_id :: string
  model_id :: string
  keyboard_name :: string
  keyboard_connected :: "bool option"
  running :: bool
  loop :: "event_loop option"
  last_event_time :: real
  debounce_delay :: real

definition KeyboardMonitor_init :: "string \<Rightarrow> string \<Rightarrow> string \<Rightarrow> keyboard_monitor" where
  "KeyboardMonitor_init vendor model name =
     \<lparr>vendor_id = lower vendor, model_id = lower model, keyboard_name = name,
      keyboard_connected = None, running = True, loop = None,
      last_event_time = 0, debounce_delay = 0.5\<rparr>"

definition is_target_keyboard :: "keyboard_monitor \<Rightarrow> device \<Rightarrow> bool" where
  "is_target_keyboard m device =
     (if device ''ID_BUS'' \<noteq> Some ''usb'' then False
      else if device ''ID_INPUT_KEYBOARD'' \<noteq> Some ''1'' then False
      else
        let vendor = lower (get_default device ''ID_VENDOR_ID'' []);
            model = lower (get_default device ''ID_MODEL_ID'' [])
        in vendor = vendor_id m \<and> model = model_id m)"

text \<open>The test written inline in the loop of \<^verbatim>\<open>check_initial_state\<close>.\<close>

definition initial_match :: "keyboard_monitor \<Rightarrow> device \<Rightarrow> bool" where
  "initial_match m device =
     (if device ''ID_INPUT_KEYBOARD'' = Some ''1'' \<and> device ''ID_BUS'' = Some ''usb'' then
        let vendor = lower (get_default device ''ID_VENDOR_ID'' []);
            model = lower (get_default device ''ID_MODEL_ID'' [])
        in (if vendor = vendor_id m \<and> model = model_id m then True else False)
      else False)"

text \<open>
  The \<^verbatim>\<open>for\<close> loop of \<^verbatim>\<open>check_initial_state\<close> over the enumerated input devices,
  with the code after the loop as the case of the empty list. The result of
  \<^verbatim>\<open>switch_input\<close> is discarded, as in the source.
\<close>

fun scan_devices ::
  "behaviour \<Rightarrow> device list \<Rightarrow> keyboard_monitor \<times> tv_switcher \<times> world \<Rightarrow>
     unit result \<times> keyboard_monitor \<times> tv_switcher \<times> world" where
  "scan_devices b [] (m, tv, w) =
     (let w1 = logmsg INFO (KeyboardNotConnected (keyboard_name m)) w;
          m1 = m\<lparr>keyboard_connected := Some False\<rparr>;
          (r, tv1, w2) = switch_input b False tv w1
      in (case r of Return v \<Rightarrow> Return () | Raise \<Rightarrow> Raise, m1, tv1, w2))"
| "scan_devices b (device # rest) (m, tv, w) =
     (if initial_match m device then
        let w1 = logmsg INFO (KeyboardCurrentlyConnected (keyboard_name m)) w;
            m1 = m\<lparr>keyboard_connected := Some True\<rparr>;
            (r, tv1, w2) = switch_input b True tv w1
        in (case r of Return v \<Rightarrow> Return () | Raise \<Rightarrow> Raise, m1, tv1, w2)
      else scan_devices b rest (m, tv, w))"

definition check_initial_state ::
  "behaviour \<Rightarrow> device list \<Rightarrow> keyboard_monitor \<times> tv_switcher \<times> world \<Rightarrow>
     unit result \<times> keyboard_monitor \<times> tv_switcher \<times> world" where
  "check_initial_state b devices s =
     (let (m, tv, w) = s in scan_devices b devices (m, tv, logmsg INFO CheckingInitialState w))"

text \<open>
  \<^verbatim>\<open>handle_device_event\<close>, with the reading of the clock as a parameter. Handing a
  coroutine to the event loop appends its argument to \<open>scheduled\<close>.
\<close>

definition handle_device_event ::
  "string \<Rightarrow> device \<Rightarrow> real \<Rightarrow> keyboard_monitor \<times> world \<Rightarrow> keyboard_monitor \<times> world" where
  "handle_device_event action device current_time s =
     (let (m, w) = s in
      if \<not> is_target_keyboard m device then (m, w)
      else if current_time - last_event_time m < debounce_delay m then (m, w)
      else
        let m1 = m\<lparr>last_event_time := current_time\<rparr>;
            vendor = get_default device ''ID_VENDOR'' ''Unknown'';
            model = get_default device ''ID_MODEL'' ''Unknown''
        in
        if action = ''add'' then
          let w1 = logmsg INFO (UsbKeyboardConnected vendor model) w in
          if keyboard_connected m1 \<noteq> Some True then
            (m1\<lparr>keyboard_connected := Some True\<rparr>,
             if loop m1 \<noteq> None then w1\<lparr>scheduled := scheduled w1 @ [True]\<rparr> else w1)
          else (m1, logmsg DEBUG AlreadyConnected w1)
        else if action = ''remove'' then
          let w1 = logmsg INFO (UsbKeyboardDisconnected vendor model) w in
          if keyboard_connected m1 \<noteq> Some False then
            (m1\<lparr>keyboard_connected := Some False\<rparr>,
             if loop m1 \<noteq> None then w1\<lparr>scheduled := scheduled w1 @ [False]\<rparr> else w1)
          else (m1, logmsg DEBUG AlreadyDisconnected w1)
        else (m1, w))"

text \<open>
  The polling loop of \<^verbatim>\<open>start_monitoring\<close> runs over a finite script of poll results:
  a timeout (\<^verbatim>\<open>None\<close>), a device with its action and the clock reading at its handling,
  or an exception of the poll. The script is a prefix of a run; the interleaving of the
  signal handler with the loop is not modelled.
\<close>

datatype poll = Timeout | Event string device real | PollError

fun monitor_loop :: "poll list \<Rightarrow> keyboard_monitor \<times> world \<Rightarrow> keyboard_monitor \<times> world" where
  "monitor_loop [] (m, w) = (m, w)"
| "monitor_loop (p # ps) (m, w) =
     (if \<not> running m then (m, logmsg INFO MonitorLoopExited w)
      else
        case p of
          Timeout \<Rightarrow> monitor_loop ps (m, w)
        | Event action device t \<Rightarrow>
            if action = ''add'' \<or> action = ''remove''
            then monitor_loop ps (handle_device_event action device t (m, w))
            else monitor_loop ps (m, w)
        | PollError \<Rightarrow>
            (m, logmsg INFO MonitorLoopExited
                  (if running m then logmsg ERROR ErrorInMonitorLoop w else w)))"

text \<open>
  \<^verbatim>\<open>start_monitoring\<close> up to the entry of its polling loop, and as a whole. An
  exception escaping \<^verbatim>\<open>check_initial_state\<close> would end the method before the loop.
\<close>

definition start_monitoring_setup ::
  "behaviour \<Rightarrow> device list \<Rightarrow> keyboard_monitor \<times> tv_switcher \<times> world \<Rightarrow>
     unit result \<times> keyboard_monitor \<times> tv_switcher \<times> world" where
  "start_monitoring_setup b devices s =
     (let (m, tv, w) = s;
          w1 = logmsg INFO (VendorProduct (vendor_id m) (model_id m))
                 (logmsg INFO (WatchingFor (keyboard_name m)) (logmsg INFO StartingMonitoring w));
          m1 = m\<lparr>loop := Some EventLoop\<rparr>;
          (r, m2, tv2, w2) = check_initial_state b devices (m1, tv, w1)
      in case r of
           Raise \<Rightarrow> (Raise, m2, tv2, w2)
         | Return v \<Rightarrow> (Return (), m2, tv2, logmsg INFO PressCtrlC (logmsg INFO MonitorStarted w2)))"

definition start_monitoring ::
  "behaviour \<Rightarrow> device list \<Rightarrow> poll list \<Rightarrow> keyboard_monitor \<times> tv_switcher \<times> world \<Rightarrow>
     unit result \<times> keyboard_monitor \<times> tv_switcher \<times> world" where
  "start_monitoring b devices polls s =
     (let (r, m, tv, w) = start_monitoring_setup b devices s in
      case r of
        Raise \<Rightarrow> (Raise, m, tv, w)
      | Return v \<Rightarrow>
          let (m', w') = monitor_loop polls (m, w)
          in (Return (), m', tv, w'))"

text \<open>\<^verbatim>\<open>stop\<close>, which the signal handler calls.\<close>

definition stop :: "keyboard_monitor \<times> world \<Rightarrow> keyboard_monitor \<times> world" where
  "stop s = (let (m, w) = s in (m\<lparr>running := False\<rparr>, logmsg INFO StoppingMonitor w))"

section \<open>Notions used in the statements\<close>

text \<open>The library calls made between two worlds, the later one extending the earlier.\<close>

definition new_calls :: "world \<Rightarrow> world \<Rightarrow> (call \<times> outcome) list" where
  "new_calls w w' = drop (length (trace w)) (trace w')"

text \<open>
  The call sequences that the \<^verbatim>\<open>try\<close> suite of \<^verbatim>\<open>switch_input\<close> can leave behind,
  with its result and the binding of \<^verbatim>\<open>client\<close>.
\<close>

definition try_shape ::
  "bool \<Rightarrow> string \<Rightarrow> tv_switcher \<Rightarrow> bool result \<Rightarrow> handle option \<Rightarrow> (call \<times> outcome) list \<Rightarrow> bool" where
  "try_shape conn app tv r cl new =
     (\<exists>pre wk. (pre = [] \<or> pre = [(NewStorage, Returned), (AsyncInit, Returned)]) \<and>
        (wk = [] \<or> conn \<and> turn_on_screen tv \<and> (wk = [(TurnScreenOn, Returned)] \<or> wk = [(TurnScreenOn, Raised)])) \<and>
        (r = Raise \<and> cl = None \<and> new = [(NewStorage, Raised)]
       \<or> r = Raise \<and> cl = None \<and> new = [(NewStorage, Returned), (AsyncInit, Raised)]
       \<or> r = Raise \<and> cl = None \<and> new = pre @ [(CreateClient, Raised)]
       \<or> r = Raise \<and> cl = Some WebOsClient \<and> new = pre @ [(CreateClient, Returned), (Connect, Raised)]
       \<or> r = Raise \<and> cl = Some WebOsClient \<and>
           new = pre @ [(CreateClient, Returned), (Connect, Returned)] @ wk @ [(LaunchApp app, Raised)]
       \<or> r = Raise \<and> cl = Some WebOsClient \<and>
           new = pre @ [(CreateClient, Returned), (Connect, Returned)] @ wk @
                 [(LaunchApp app, Returned), (Disconnect, Raised)]
       \<or> r = Return True \<and> cl = Some WebOsClient \<and>
           new = pre @ [(CreateClient, Returned), (Connect, Returned)] @ wk @
                 [(LaunchApp app, Returned), (Disconnect, Returned)]))"

text \<open>Concrete inputs: an empty world, a configured switcher, and behaviours that raise
  on the listed calls and return on every other call.\<close>

definition world0 :: world where
  "world0 = \<lparr>trace = [], logged = [], switch_calls = [], scheduled = []\<rparr>"

definition tv0 :: tv_switcher where
  "tv0 = TVSwitcher_init ''192.168.1.10'' ''com.webos.app.hdmi1'' ''com.webos.app.hdmi2'' True"

definition raising :: "call list \<Rightarrow> behaviour" where
  "raising ks h k = (if k \<in> set ks then Raised else Returned)"

text \<open>A list of switch actions in which no action repeats the state before it.\<close>

fun alternating :: "bool option \<Rightarrow> bool list \<Rightarrow> bool" where
  "alternating prev [] = True"
| "alternating prev (x # xs) = (prev \<noteq> Some x \<and> alternating (Some x) xs)"

text \<open>Awaiting \<^verbatim>\<open>cleanup\<close> a number of times in a row, and counting disconnect calls.\<close>

fun cleanup_n :: "nat \<Rightarrow> behaviour \<Rightarrow> tv_switcher \<times> world \<Rightarrow> tv_switcher \<times> world" where
  "cleanup_n 0 b s = s"
| "cleanup_n (Suc n) b s = (let (r, tv1, w1) = cleanup b (fst s) (snd s) in cleanup_n n b (tv1, w1))"

definition disconnects :: "(call \<times> outcome) list \<Rightarrow> nat" where
  "disconnects cs = length (filter (\<lambda>c. fst c = Disconnect) cs)"

text \<open>
  A configured monitor as \<^verbatim>\<open>__init__\<close> leaves it, the same monitor once the event
  loop is set and the keyboard was found absent, a switcher holding a client handle, the
  target keyboard as udev reports it (identifiers in another case than the configured
  ones), and a mouse of the same vendor and model.
\<close>

definition km0 :: keyboard_monitor where
  "km0 = KeyboardMonitor_init ''04D9'' ''A1b2'' ''Desk keyboard''"

definition km1 :: keyboard_monitor where
  "km1 = km0\<lparr>loop := Some EventLoop, keyboard_connected := Some False\<rparr>"

definition tv_held :: tv_switcher where
  "tv_held = tv0\<lparr>client := Some WebOsClient\<rparr>"

definition kbd :: device where
  "kbd = [''ID_BUS'' \<mapsto> ''usb'', ''ID_INPUT_KEYBOARD'' \<mapsto> ''1'',
          ''ID_VENDOR_ID'' \<mapsto> ''04d9'', ''ID_MODEL_ID'' \<mapsto> ''a1B2'',
          ''ID_VENDOR'' \<mapsto> ''Holtek'', ''ID_MODEL'' \<mapsto> ''USB_Keyboard'']"

definition mouse :: device where
  "mouse = [''ID_BUS'' \<mapsto> ''usb'', ''ID_INPUT_MOUSE'' \<mapsto> ''1'',
          ''ID_VENDOR_ID'' \<mapsto> ''04d9'', ''ID_MODEL_ID'' \<mapsto> ''a1b2'']"

section \<open>The shape of a run of \<^verbatim>\<open>switch_input\<close>\<close>

text \<open>
  Unfolding the whole method at once duplicates the world at every step, so the run is
  followed one call at a time: each call extends the history by one entry and leaves the
  other fields of the world alone.
\<close>

lemma perform_eq: "perform b k w = (b (trace w) k, w\<lparr>trace := trace w @ [(k, b (trace w) k)]\<rparr>)"
  by (simp add: perform_def Let_def)

lemma perform_obtain:
  obtains r w' where "perform b k w = (r, w')" "trace w' = trace w @ [(k, r)]"
    "logged w' = logged w" "switch_calls w' = switch_calls w" "scheduled w' = scheduled w"
proof -
  show thesis
    by (rule that [of "b (trace w) k" "w\<lparr>trace := trace w @ [(k, b (trace w) k)]\<rparr>"])
      (simp_all add: perform_eq)
qed

lemma init_storage_cases:
  "initialize_storage b tv w =
     (if storage tv \<noteq> None then (Return (), tv, w)
      else if b (trace w) NewStorage = Raised then (Raise, tv, w\<lparr>trace := trace w @ [(NewStorage, Raised)]\<rparr>)
      else if b (trace w @ [(NewStorage, Returned)]) AsyncInit = Raised
        then (Raise, tv\<lparr>storage := Some StorageSqliteDict\<rparr>, w\<lparr>trace := trace w @ [(NewStorage, Returned), (AsyncInit, Raised)]\<rparr>)
        else (Return (), tv\<lparr>storage := Some StorageSqliteDict\<rparr>,
               logmsg INFO StorageInitialized (w\<lparr>trace := trace w @ [(NewStorage, Returned), (AsyncInit, Returned)]\<rparr>)))"
  apply (simp add: initialize_storage_def perform_def Let_def)
  apply (cases "b (trace w) NewStorage"; cases "b (trace w @ [(NewStorage, Returned)]) AsyncInit"; simp)
  done

lemma initialize_storage_shape:
  assumes "initialize_storage b tv w = (r, tv', w')"
  shows "turn_on_screen tv' = turn_on_screen tv \<and> tv_ip tv' = tv_ip tv \<and>
         hdmi_connected tv' = hdmi_connected tv \<and> hdmi_disconnected tv' = hdmi_disconnected tv \<and>
         client tv' = client tv \<and> cleanup_done tv' = cleanup_done tv \<and>
         switch_calls w' = switch_calls w \<and> scheduled w' = scheduled w \<and>
         (r = Raise \<and> (trace w' = trace w @ [(NewStorage, Raised)] \<or>
                        trace w' = trace w @ [(NewStorage, Returned), (AsyncInit, Raised)]) \<or>
          r = Return () \<and> (trace w' = trace w \<or>
                        trace w' = trace w @ [(NewStorage, Returned), (AsyncInit, Returned)]))"
  using assms by (auto simp: init_storage_cases logmsg_def split: if_splits)

lemma wake_shape:
  "switch_calls (wake b w) = switch_calls w \<and> scheduled (wake b w) = scheduled w \<and>
   (trace (wake b w) = trace w @ [(TurnScreenOn, Returned)] \<or>
    trace (wake b w) = trace w @ [(TurnScreenOn, Raised)])"
  by (cases "b (trace w) TurnScreenOn") (simp_all add: wake_def perform_eq logmsg_def)

lemma switch_input_try_shape:
  assumes a: "switch_input_try b conn app tv w = (r, cl, tv', w')"
  shows "switch_calls w' = switch_calls w \<and> scheduled w' = scheduled w \<and>
         (\<exists>new. trace w' = trace w @ new \<and> try_shape conn app tv r cl new)"
proof -
  obtain r1 tv1 w1 where s1: "initialize_storage b tv w = (r1, tv1, w1)"
    using prod_cases3 by blast
  note i1 = initialize_storage_shape [OF s1]
  show ?thesis
  proof (cases r1)
    case Raise
    with a s1 have "r = Raise" "cl = None" "w' = w1"
      by (simp_all add: switch_input_try_def)
    with i1 Raise show ?thesis
      by (auto simp: try_shape_def)
  next
    case (Return u)
    with i1 obtain pre where pre: "trace w1 = trace w @ pre"
      "pre = [] \<or> pre = [(NewStorage, Returned), (AsyncInit, Returned)]"
      by auto
    obtain r2 w2 where s2: "perform b CreateClient (logmsg DEBUG (ConnectingToTV (tv_ip tv1)) w1) = (r2, w2)"
      and t2: "trace w2 = trace (logmsg DEBUG (ConnectingToTV (tv_ip tv1)) w1) @ [(CreateClient, r2)]"
        "switch_calls w2 = switch_calls (logmsg DEBUG (ConnectingToTV (tv_ip tv1)) w1)"
        "scheduled w2 = scheduled (logmsg DEBUG (ConnectingToTV (tv_ip tv1)) w1)"
      by (rule perform_obtain)
    show ?thesis
    proof (cases r2)
      case Raised
      with a s1 s2 Return have "r = Raise" "cl = None" "w' = w2"
        by (simp_all add: switch_input_try_def)
      with i1 pre t2 Raised show ?thesis
        by (auto simp: try_shape_def logmsg_def)
    next
      case Returned
      note r2 = Returned
      obtain r3 w3 where s3: "perform b Connect w2 = (r3, w3)"
        and t3: "trace w3 = trace w2 @ [(Connect, r3)]"
          "switch_calls w3 = switch_calls w2" "scheduled w3 = scheduled w2"
        by (rule perform_obtain)
      show ?thesis
      proof (cases r3)
        case Raised
        with a s1 s2 s3 Return r2 have "r = Raise" "cl = Some WebOsClient" "w' = w3"
          by (simp_all add: switch_input_try_def)
        with i1 pre t2 t3 r2 Raised show ?thesis
          by (auto simp: try_shape_def logmsg_def)
      next
        case Returned
        note r3 = Returned
        define w4 where "w4 = (if conn \<and> turn_on_screen tv1 then wake b w3 else w3)"
        have f4: "switch_calls w4 = switch_calls w3" "scheduled w4 = scheduled w3"
          using wake_shape [of b w3] by (simp_all add: w4_def)
        have "\<exists>wk. trace w4 = trace w3 @ wk \<and>
          (wk = [] \<or> conn \<and> turn_on_screen tv \<and>
             (wk = [(TurnScreenOn, Returned)] \<or> wk = [(TurnScreenOn, Raised)]))"
          using wake_shape [of b w3] i1
          by (cases "conn \<and> turn_on_screen tv1") (auto simp: w4_def)
        then obtain wk where wk: "trace w4 = trace w3 @ wk"
          "wk = [] \<or> conn \<and> turn_on_screen tv \<and>
             (wk = [(TurnScreenOn, Returned)] \<or> wk = [(TurnScreenOn, Raised)])"
          by blast
        obtain r5 w5 where s5: "perform b (LaunchApp app) w4 = (r5, w5)"
          and t5: "trace w5 = trace w4 @ [(LaunchApp app, r5)]"
            "switch_calls w5 = switch_calls w4" "scheduled w5 = scheduled w4"
          by (rule perform_obtain)
        obtain r6 w6 where s6: "perform b Disconnect (logmsg INFO (SwitchedTo app) w5) = (r6, w6)"
          and t6: "trace w6 = trace (logmsg INFO (SwitchedTo app) w5) @ [(Disconnect, r6)]"
            "switch_calls w6 = switch_calls (logmsg INFO (SwitchedTo app) w5)"
            "scheduled w6 = scheduled (logmsg INFO (SwitchedTo app) w5)"
          by (rule perform_obtain)
        from a s1 s2 s3 Return r2 r3
        have e: "(r, cl, tv', w') =
           (if r5 = Raised then (Raise, Some WebOsClient, tv1, w5)
            else if r6 = Raised then (Raise, Some WebOsClient, tv1, w6)
            else (Return True, Some WebOsClient, tv1, w6))"
          using s5 s6 unfolding w4_def
          by (auto simp add: switch_input_try_def Let_def)
        have tr5: "trace w5 = trace w @ pre @ [(CreateClient, Returned), (Connect, Returned)] @ wk @ [(LaunchApp app, r5)]"
          using pre t2 t3 wk t5 r2 r3 by (simp add: logmsg_def)
        have tr6: "trace w6 = trace w @ pre @ [(CreateClient, Returned), (Connect, Returned)] @ wk @ [(LaunchApp app, r5), (Disconnect, r6)]"
          using tr5 t6 by (simp add: logmsg_def)
        have fl: "switch_calls w5 = switch_calls w" "scheduled w5 = scheduled w"
          "switch_calls w6 = switch_calls w" "scheduled w6 = scheduled w"
          using i1 t2 t3 f4 t5 t6 by (simp_all add: logmsg_def)
        show ?thesis
        proof (cases r5)
          case Raised
          with e have "r = Raise" "cl = Some WebOsClient" "w' = w5" by simp_all
          with tr5 fl Raised pre(2) wk(2) show ?thesis
            unfolding try_shape_def by (intro conjI exI [of _ pre] exI [of _ wk] exI [of _ "drop (length (trace w)) (trace w5)"]) simp_all
        next
          case Returned
          note r5 = Returned
          show ?thesis
          proof (cases r6)
            case Raised
            with e r5 have "r = Raise" "cl = Some WebOsClient" "w' = w6" by simp_all
            with tr6 fl Raised r5 pre(2) wk(2) show ?thesis
              unfolding try_shape_def by (intro conjI exI [of _ pre] exI [of _ wk] exI [of _ "drop (length (trace w)) (trace w6)"]) simp_all
          next
            case Returned
            with e r5 have "r = Return True" "cl = Some WebOsClient" "w' = w6" by simp_all
            with tr6 fl Returned r5 pre(2) wk(2) show ?thesis
              unfolding try_shape_def by (intro conjI exI [of _ pre] exI [of _ wk] exI [of _ "drop (length (trace w)) (trace w6)"]) simp_all
          qed
        qed
      qed
    qed
  qed
qed

lemma switch_input_shape:
  assumes a: "switch_input b conn tv w = (r, tv', w')"
  shows "switch_calls w' = switch_calls w @ [conn] \<and> scheduled w' = scheduled w \<and>
         (\<exists>rt cl new. try_shape conn (if conn then hdmi_connected tv else hdmi_disconnected tv) tv rt cl new \<and>
            (rt = Return True \<and> r = Return True \<and> trace w' = trace w @ new
           \<or> rt = Raise \<and> cl = None \<and> r = Return False \<and> trace w' = trace w @ new \<and>
               last (logged w') = (ERROR, FailedToSwitchInput)
           \<or> rt = Raise \<and> cl = Some WebOsClient \<and> r = Return False \<and>
               (trace w' = trace w @ new @ [(Disconnect, Returned)] \<or>
                trace w' = trace w @ new @ [(Disconnect, Raised)]) \<and>
               last (logged w') = (ERROR, FailedToSwitchInput)))"
proof -
  define app where "app = (if conn then hdmi_connected tv else hdmi_disconnected tv)"
  define w0 where "w0 = logmsg INFO (KeyboardSwitching (if conn then ''connected'' else ''disconnected'') app)
                 (w\<lparr>switch_calls := switch_calls w @ [conn]\<rparr>)"
  obtain rt cl tv1 w1 where t: "switch_input_try b conn app tv w0 = (rt, cl, tv1, w1)"
    using prod_cases4 by blast
  from switch_input_try_shape [OF t] obtain new where
    f: "switch_calls w1 = switch_calls w0" "scheduled w1 = scheduled w0"
    and tr: "trace w1 = trace w0 @ new" and sh: "try_shape conn app tv rt cl new"
    by blast
  have w0f: "switch_calls w0 = switch_calls w @ [conn]" "scheduled w0 = scheduled w" "trace w0 = trace w"
    by (simp_all add: w0_def logmsg_def)
  from sh have rt_cases: "rt = Return True \<or> rt = Raise \<and> cl = None \<or> rt = Raise \<and> cl = Some WebOsClient"
    by (auto simp: try_shape_def)
  let ?w2 = "logmsg ERROR FailedToSwitchInput w1"
  have e: "(r, tv', w') =
     (case rt of Return v \<Rightarrow> (Return v, tv1, w1)
      | Raise \<Rightarrow> (Return False, tv1, case cl of None \<Rightarrow> ?w2 | Some h \<Rightarrow> snd (perform b Disconnect ?w2)))"
    using a t unfolding switch_input_def app_def w0_def
    by (auto simp: Let_def split: result.splits)
  from rt_cases show ?thesis
  proof (elim disjE conjE)
    assume "rt = Return True"
    with e f tr sh w0f show ?thesis
      unfolding app_def [symmetric] by auto
  next
    assume "rt = Raise" "cl = None"
    with e f tr sh w0f show ?thesis
      unfolding app_def [symmetric] by (auto simp: logmsg_def)
  next
    assume c: "rt = Raise" "cl = Some WebOsClient"
    with e have r: "r = Return False" and w': "w' = snd (perform b Disconnect ?w2)"
      by simp_all
    have "trace w' = trace w @ new @ [(Disconnect, b (trace ?w2) Disconnect)]"
      and lg: "logged w' = logged w1 @ [(ERROR, FailedToSwitchInput)]"
      and fl: "switch_calls w' = switch_calls w @ [conn]" "scheduled w' = scheduled w"
      using w' tr w0f f by (simp_all add: perform_eq logmsg_def)
    then have "trace w' = trace w @ new @ [(Disconnect, Returned)] \<or>
               trace w' = trace w @ new @ [(Disconnect, Raised)]"
      by (cases "b (trace ?w2) Disconnect") simp_all
    with r lg fl sh c show ?thesis
      unfolding app_def [symmetric] by auto
  qed
qed

section \<open>Concrete runs of \<^verbatim>\<open>switch_input\<close>\<close>

lemmas eval_defs = switch_input_def switch_input_try_def initialize_storage_def perform_def
  wake_def logmsg_def raising_def tv0_def world0_def TVSwitcher_init_def Let_def

lemma run_all_return:
  "switch_input (raising []) True tv0 world0 =
     (Return True, tv0\<lparr>storage := Some StorageSqliteDict\<rparr>,
      \<lparr>trace = [(NewStorage, Returned), (AsyncInit, Returned), (CreateClient, Returned),
                (Connect, Returned), (TurnScreenOn, Returned),
                (LaunchApp ''com.webos.app.hdmi1'', Returned), (Disconnect, Returned)],
       logged = [(INFO, KeyboardSwitching ''connected'' ''com.webos.app.hdmi1''),
                 (INFO, StorageInitialized), (DEBUG, ConnectingToTV ''192.168.1.10''),
                 (INFO, TurningScreenOn), (INFO, TurnedScreenOn),
                 (INFO, SwitchedTo ''com.webos.app.hdmi1'')],
       switch_calls = [True], scheduled = []\<rparr>)"
  by (simp add: eval_defs)

lemma run_launch_raises:
  "switch_input (raising [LaunchApp ''com.webos.app.hdmi2'']) False tv0 world0 =
     (Return False, tv0\<lparr>storage := Some StorageSqliteDict\<rparr>,
      \<lparr>trace = [(NewStorage, Returned), (AsyncInit, Returned), (CreateClient, Returned),
                (Connect, Returned), (LaunchApp ''com.webos.app.hdmi2'', Raised),
                (Disconnect, Returned)],
       logged = [(INFO, KeyboardSwitching ''disconnected'' ''com.webos.app.hdmi2''),
                 (INFO, StorageInitialized), (DEBUG, ConnectingToTV ''192.168.1.10''),
                 (ERROR, FailedToSwitchInput)],
       switch_calls = [False], scheduled = []\<rparr>)"
  by (simp add: eval_defs)

section \<open>Claims about the switch executor\<close>

text \<open>
  Claim C1, as the code has it. Whenever an invocation of \<^verbatim>\<open>switch_input\<close> obtained a
  client handle (\<^verbatim>\<open>WebOsClient.create\<close> returned), a disconnect is attempted before
  the method returns, also when \<^verbatim>\<open>connect\<close> or the input-switch step failed. Success
  is reported only if the input-switch step completed without error, and it is reported
  whenever that step completed and no disconnect raised. When failure is reported, the
  last log record is the error record of the handler: a failure of the release attempted
  by the handler is swallowed without a log record and leaves the reported failure as it
  is.
\<close>

theorem switch_input_release:
  assumes "switch_input b conn tv w = (r, tv', w')"
  shows "((CreateClient, Returned) \<in> set (new_calls w w') \<longrightarrow>
            (Disconnect, Returned) \<in> set (new_calls w w') \<or>
            (Disconnect, Raised) \<in> set (new_calls w w'))
       \<and> (r = Return True \<longrightarrow>
            (LaunchApp (if conn then hdmi_connected tv else hdmi_disconnected tv), Returned)
              \<in> set (new_calls w w'))
       \<and> ((LaunchApp (if conn then hdmi_connected tv else hdmi_disconnected tv), Returned)
              \<in> set (new_calls w w')
            \<and> (Disconnect, Raised) \<notin> set (new_calls w w') \<longrightarrow> r = Return True)
       \<and> (r = Return False \<longrightarrow> last (logged w') = (ERROR, FailedToSwitchInput))"
  using switch_input_shape [OF assms]
  by (auto simp: try_shape_def new_calls_def)

text \<open>
  The theorem at two runs from the empty world: one where \<^verbatim>\<open>launch_app\<close> raises
  (handle obtained, disconnect attempted, failure reported, handler's record last), and
  one where every call returns (success, input-switch step completed).
\<close>

theorem switch_input_release_witness:
  "fst (switch_input (raising [LaunchApp ''com.webos.app.hdmi2'']) False tv0 world0) = Return False
   \<and> (CreateClient, Returned) \<in> set (new_calls world0
         (snd (snd (switch_input (raising [LaunchApp ''com.webos.app.hdmi2'']) False tv0 world0))))
   \<and> (Disconnect, Returned) \<in> set (new_calls world0
         (snd (snd (switch_input (raising [LaunchApp ''com.webos.app.hdmi2'']) False tv0 world0))))
   \<and> last (logged (snd (snd (switch_input (raising [LaunchApp ''com.webos.app.hdmi2'']) False tv0 world0))))
        = (ERROR, FailedToSwitchInput)
   \<and> fst (switch_input (raising []) True tv0 world0) = Return True
   \<and> (LaunchApp ''com.webos.app.hdmi1'', Returned) \<in> set (new_calls world0
         (snd (snd (switch_input (raising []) True tv0 world0))))
   \<and> (Disconnect, Raised) \<notin> set (new_calls world0
         (snd (snd (switch_input (raising []) True tv0 world0))))"
  using switch_input_release [OF run_launch_raises] switch_input_release [OF run_all_return]
  unfolding run_launch_raises run_all_return
  by (simp add: new_calls_def world0_def)

text \<open>
  Claim C1 as stated fails. With every call returning except \<^verbatim>\<open>disconnect\<close>, the
  input-switch step completes and the method still reports failure, after a second
  disconnect attempt. With \<^verbatim>\<open>WebOsClient.create\<close> raising, no disconnect is attempted.
  With \<^verbatim>\<open>launch_app\<close> and \<^verbatim>\<open>disconnect\<close> both raising, the log is the one of the run
  where only \<^verbatim>\<open>launch_app\<close> raises: the release failure leaves no record.
\<close>

theorem switch_input_release_counterexample:
  "fst (switch_input (raising [Disconnect]) False tv0 world0) = Return False
   \<and> trace (snd (snd (switch_input (raising [Disconnect]) False tv0 world0))) =
       [(NewStorage, Returned), (AsyncInit, Returned), (CreateClient, Returned),
        (Connect, Returned), (LaunchApp ''com.webos.app.hdmi2'', Returned),
        (Disconnect, Raised), (Disconnect, Raised)]
   \<and> trace (snd (snd (switch_input (raising [CreateClient]) False tv0 world0))) =
       [(NewStorage, Returned), (AsyncInit, Returned), (CreateClient, Raised)]
   \<and> trace (snd (snd (switch_input (raising [LaunchApp ''com.webos.app.hdmi2'', Disconnect])
                         False tv0 world0))) =
       [(NewStorage, Returned), (AsyncInit, Returned), (CreateClient, Returned),
        (Connect, Returned), (LaunchApp ''com.webos.app.hdmi2'', Raised), (Disconnect, Raised)]
   \<and> logged (snd (snd (switch_input (raising [LaunchApp ''com.webos.app.hdmi2'', Disconnect])
                          False tv0 world0))) =
       [(INFO, KeyboardSwitching ''disconnected'' ''com.webos.app.hdmi2''),
        (INFO, StorageInitialized), (DEBUG, ConnectingToTV ''192.168.1.10''),
        (ERROR, FailedToSwitchInput)]
   \<and> logged (snd (snd (switch_input (raising [LaunchApp ''com.webos.app.hdmi2'', Disconnect])
                          False tv0 world0))) =
     logged (snd (snd (switch_input (raising [LaunchApp ''com.webos.app.hdmi2''])
                          False tv0 world0)))"
  by (simp add: eval_defs)

text \<open>
  Claim C2, as the code has it. For every target state and every behaviour of the
  library, \<^verbatim>\<open>switch_input\<close> returns a boolean and lets no exception escape; a failure
  of the storage set-up, of the creation of the client, of \<^verbatim>\<open>connect\<close> or of the
  input-switch step makes the outcome False.
\<close>

theorem switch_input_never_raises:
  assumes "switch_input b conn tv w = (r, tv', w')"
  shows "(r = Return True \<or> r = Return False) \<and>
         (\<forall>k \<in> {NewStorage, AsyncInit, CreateClient, Connect,
                LaunchApp (if conn then hdmi_connected tv else hdmi_disconnected tv)}.
            (k, Raised) \<in> set (new_calls w w') \<longrightarrow> r = Return False)"
  using switch_input_shape [OF assms]
  by (auto simp: try_shape_def new_calls_def)

text \<open>The theorem at the run where \<^verbatim>\<open>launch_app\<close> raises.\<close>

theorem switch_input_never_raises_witness:
  "(LaunchApp ''com.webos.app.hdmi2'', Raised) \<in> set (new_calls world0
         (snd (snd (switch_input (raising [LaunchApp ''com.webos.app.hdmi2'']) False tv0 world0))))
   \<and> fst (switch_input (raising [LaunchApp ''com.webos.app.hdmi2'']) False tv0 world0) = Return False"
  using switch_input_never_raises [OF run_launch_raises]
  unfolding run_launch_raises
  by (simp add: new_calls_def world0_def)

text \<open>
  Claim C2 as stated fails: a failure of the wake call is a failure of the device control
  client, and with every other call returning the outcome is True.
\<close>

theorem switch_input_wake_raises_counterexample:
  "fst (switch_input (raising [TurnScreenOn]) True tv0 world0) = Return True
   \<and> trace (snd (snd (switch_input (raising [TurnScreenOn]) True tv0 world0))) =
       [(NewStorage, Returned), (AsyncInit, Returned), (CreateClient, Returned),
        (Connect, Returned), (TurnScreenOn, Raised),
        (LaunchApp ''com.webos.app.hdmi1'', Returned), (Disconnect, Returned)]"
  by (simp add: eval_defs)

text \<open>
  What the wake step can add to a run: the wake call is made only for the target state
  present with the option enabled, and the input-switch call follows it whatever the
  wake call did.
\<close>

lemma wake_step_isolated:
  assumes "switch_input b conn tv w = (r, tv', w')"
  shows "(TurnScreenOn, Returned) \<in> set (new_calls w w') \<or>
         (TurnScreenOn, Raised) \<in> set (new_calls w w') \<longrightarrow>
         conn \<and> turn_on_screen tv \<and>
         ((LaunchApp (hdmi_connected tv), Returned) \<in> set (new_calls w w') \<or>
          (LaunchApp (hdmi_connected tv), Raised) \<in> set (new_calls w w'))"
  using switch_input_shape [OF assms]
  by (auto simp: try_shape_def new_calls_def)

text \<open>
  Claim C7 says that, when the wake call fails, the reported outcome depends only on the
  input-switch step. The run below has the target state present and the wake option
  enabled; the wake call raises, the input-switch step is attempted and returns, and the
  disconnect that follows raises: the method reports False, and disconnects a second time
  in its handler.
\<close>

theorem switch_input_wake_and_release_raise:
  "switch_input (raising [TurnScreenOn, Disconnect]) True tv0 world0 =
     (Return False, tv0\<lparr>storage := Some StorageSqliteDict\<rparr>,
      \<lparr>trace = [(NewStorage, Returned), (AsyncInit, Returned), (CreateClient, Returned),
                (Connect, Returned), (TurnScreenOn, Raised),
                (LaunchApp ''com.webos.app.hdmi1'', Returned), (Disconnect, Raised),
                (Disconnect, Raised)],
       logged = [(INFO, KeyboardSwitching ''connected'' ''com.webos.app.hdmi1''),
                 (INFO, StorageInitialized), (DEBUG, ConnectingToTV ''192.168.1.10''),
                 (INFO, TurningScreenOn), (WARNING, CouldNotTurnScreenOn),
                 (INFO, SwitchedTo ''com.webos.app.hdmi1''), (ERROR, FailedToSwitchInput)],
       switch_calls = [True], scheduled = []\<rparr>)"
  by (simp add: eval_defs)

section \<open>Claims about the stored connection handle and the cleanup\<close>

lemma connect_try_result:
  assumes "connect_try b tv w = (r, tv', w')"
  shows "r = Return True \<and> client tv' \<noteq> None \<or> r = Raise"
proof (cases "client tv \<noteq> None")
  case True
  with assms show ?thesis by (simp add: connect_try_def)
next
  case False
  obtain r1 tv1 w1 where s1: "initialize_storage b tv (logmsg INFO (ConnectingToTV (tv_ip tv)) w) = (r1, tv1, w1)"
    using prod_cases3 by blast
  obtain r2 w2 where s2: "perform b NewClient w1 = (r2, w2)"
    by (cases "perform b NewClient w1")
  obtain r3 w3 where s3: "perform b Connect w2 = (r3, w3)"
    by (cases "perform b Connect w2")
  from assms False s1 s2 s3 show ?thesis
    by (auto simp: connect_try_def Let_def split: if_splits)
qed

text \<open>
  Claim C10. \<^verbatim>\<open>TVSwitcher.connect\<close> returns a boolean for every behaviour of the
  library, and whenever it returns False the field \<^verbatim>\<open>client\<close> is \<^verbatim>\<open>None\<close>;
  \<^verbatim>\<open>TVSwitcher.disconnect\<close> always returns, and after it the field is \<^verbatim>\<open>None\<close>,
  also when the underlying disconnect raised.
\<close>

theorem no_dangling_handle:
  "(fst (connect b tv w) = Return True \<or> fst (connect b tv w) = Return False)
   \<and> (fst (connect b tv w) = Return False \<longrightarrow> client (fst (snd (connect b tv w))) = None)
   \<and> fst (disconnect b tv w) = Return ()
   \<and> client (fst (snd (disconnect b tv w))) = None"
proof -
  obtain r tv1 w1 where c: "connect_try b tv w = (r, tv1, w1)"
    using prod_cases3 by blast
  from connect_try_result [OF c] c
  have "(fst (connect b tv w) = Return True \<or> fst (connect b tv w) = Return False)
   \<and> (fst (connect b tv w) = Return False \<longrightarrow> client (fst (snd (connect b tv w))) = None)"
    by (auto simp: connect_def)
  moreover have "fst (disconnect b tv w) = Return () \<and> client (fst (snd (disconnect b tv w))) = None"
    by (simp add: disconnect_def Let_def split_beta)
  ultimately show ?thesis by simp
qed

text \<open>
  The theorem at a failed connect (\<^verbatim>\<open>client.connect()\<close> raises after the client object
  was stored) and at a disconnect that raises while a handle is held.
\<close>

theorem no_dangling_handle_witness:
  "fst (connect (raising [Connect]) tv0 world0) = Return False
   \<and> client (fst (snd (connect (raising [Connect]) tv0 world0))) = None
   \<and> client (fst (snd (disconnect (raising [Disconnect]) tv_held world0))) = None"
proof -
  have e: "fst (connect (raising [Connect]) tv0 world0) = Return False"
    by (simp add: connect_def connect_try_def initialize_storage_def perform_def logmsg_def
        raising_def tv0_def world0_def TVSwitcher_init_def Let_def)
  from no_dangling_handle [of "raising [Connect]" tv0 world0] no_dangling_handle [of "raising [Disconnect]" tv_held world0] e
  show ?thesis by simp
qed

lemma cleanup_done_noop: "cleanup_done tv \<Longrightarrow> cleanup_n n b (tv, w) = (tv, w)"
  by (induction n) (simp_all add: cleanup_def)

lemma cleanup_first:
  "\<not> cleanup_done tv \<Longrightarrow> cleanup b tv w = (r, tv', w') \<Longrightarrow>
     r = Return () \<and> cleanup_done tv' \<and> client tv' = None \<and>
     (r, tv', w') = disconnect b (tv\<lparr>cleanup_done := True\<rparr>) w \<and>
     trace w' = trace w @ (if client tv \<noteq> None then [(Disconnect, b (trace w) Disconnect)] else [])"
  by (auto simp: cleanup_def disconnect_def perform_eq logmsg_def Let_def split: if_splits)

text \<open>
  Claim C8. For every \<open>n \<ge> 1\<close> and every behaviour of the library, awaiting
  \<^verbatim>\<open>cleanup\<close> \<open>n\<close> times leaves the switcher and the world as the first call left
  them, and at most one disconnect call is made. From a switcher whose flag is not yet
  set (as \<^verbatim>\<open>__init__\<close> leaves it), the first call is the call of
  \<^verbatim>\<open>TVSwitcher.disconnect\<close> with the flag set, which makes the underlying disconnect
  exactly when a handle is stored, whether that disconnect returns or raises.
\<close>

theorem cleanup_once:
  assumes "1 \<le> n"
  shows "cleanup_n n b (tv, w) = snd (cleanup b tv w)
     \<and> disconnects (new_calls w (snd (cleanup_n n b (tv, w)))) \<le> 1
     \<and> (\<not> cleanup_done tv \<longrightarrow>
          disconnect b (tv\<lparr>cleanup_done := True\<rparr>) w = cleanup b tv w \<and>
          disconnects (new_calls w (snd (snd (cleanup b tv w)))) = (if client tv \<noteq> None then 1 else 0))"
proof -
  from assms obtain k where n: "n = Suc k" by (cases n) auto
  obtain r tv1 w1 where c: "cleanup b tv w = (r, tv1, w1)"
    using prod_cases3 by blast
  show ?thesis
  proof (cases "cleanup_done tv")
    case True
    then show ?thesis
      by (simp add: cleanup_done_noop cleanup_def new_calls_def disconnects_def)
  next
    case False
    note cf = cleanup_first [OF False c]
    then have "cleanup_n k b (tv1, w1) = (tv1, w1)"
      by (simp add: cleanup_done_noop)
    with c n have e: "cleanup_n n b (tv, w) = (tv1, w1)"
      by simp
    have d: "disconnect b (tv\<lparr>cleanup_done := True\<rparr>) w = cleanup b tv w"
      using False by (simp add: cleanup_def)
    from cf have "disconnects (new_calls w w1) = (if client tv \<noteq> None then 1 else 0)"
      by (simp add: new_calls_def disconnects_def)
    with e c d False show ?thesis by simp
  qed
qed

text \<open>
  The theorem at three cleanups of a switcher that holds a handle and whose disconnect
  raises: one disconnect call in all, made by the first cleanup.
\<close>

theorem cleanup_once_witness:
  "(1::nat) \<le> 3 \<and> \<not> cleanup_done tv_held
   \<and> cleanup_n 3 (raising [Disconnect]) (tv_held, world0) = snd (cleanup (raising [Disconnect]) tv_held world0)
   \<and> disconnects (new_calls world0 (snd (cleanup_n 3 (raising [Disconnect]) (tv_held, world0)))) \<le> 1
   \<and> disconnects (new_calls world0 (snd (snd (cleanup (raising [Disconnect]) tv_held world0)))) = 1"
proof -
  have f: "\<not> cleanup_done tv_held" "client tv_held \<noteq> None"
    by (simp_all add: tv_held_def tv0_def TVSwitcher_init_def)
  have n: "(1::nat) \<le> 3" by simp
  from cleanup_once [OF n, of "raising [Disconnect]" tv_held world0] f n
  show ?thesis by simp
qed

section \<open>Claims about the keyboard monitor\<close>

lemmas km_defs = km0_def km1_def kbd_def mouse_def KeyboardMonitor_init_def is_target_keyboard_def
  initial_match_def get_default_def lower_def lower_char_def

lemma kbd_is_target: "is_target_keyboard km0 kbd" "is_target_keyboard km1 kbd"
  by (simp_all add: km_defs)

lemma mouse_not_target: "\<not> is_target_keyboard km0 mouse"
  by (simp add: km_defs)

lemma handle_not_target: "\<not> is_target_keyboard m d \<Longrightarrow> handle_device_event a d t (m, w) = (m, w)"
  by (simp add: handle_device_event_def)

lemma handle_debounced: "t - last_event_time m < debounce_delay m \<Longrightarrow> handle_device_event a d t (m, w) = (m, w)"
  by (simp add: handle_device_event_def)

lemma handle_accepted:
  assumes "is_target_keyboard m d" "\<not> t - last_event_time m < debounce_delay m"
  shows "last_event_time (fst (handle_device_event a d t (m, w))) = t"
    "debounce_delay (fst (handle_device_event a d t (m, w))) = debounce_delay m"
    "vendor_id (fst (handle_device_event a d t (m, w))) = vendor_id m"
    "model_id (fst (handle_device_event a d t (m, w))) = model_id m"
  using assms by (simp_all add: handle_device_event_def Let_def)

lemma is_target_cong: "vendor_id m' = vendor_id m \<Longrightarrow> model_id m' = model_id m \<Longrightarrow>
  is_target_keyboard m' d = is_target_keyboard m d"
  by (simp add: is_target_keyboard_def)

text \<open>
  Claim C9. The test written inline in \<^verbatim>\<open>check_initial_state\<close> and the method
  \<^verbatim>\<open>is_target_keyboard\<close> agree on every device and every monitor.
\<close>

theorem initial_match_is_target_keyboard: "initial_match m device = is_target_keyboard m device"
  by (auto simp: initial_match_def is_target_keyboard_def Let_def)

text \<open>The theorem at the target keyboard and at a mouse of the same vendor and model.\<close>

theorem initial_match_is_target_keyboard_witness: "initial_match km0 kbd \<and> is_target_keyboard km0 kbd \<and> \<not> initial_match km0 mouse"
  using initial_match_is_target_keyboard [of km0 kbd] initial_match_is_target_keyboard [of km0 mouse] kbd_is_target(1) mouse_not_target by simp

text \<open>
  Claim C4. For a monitor configured with a vendor and a model identifier, a device
  qualifies exactly when its bus is \<^verbatim>\<open>usb\<close>, its keyboard flag is \<^verbatim>\<open>1\<close>, and its
  vendor and model identifiers (the empty string when absent) equal the configured ones
  after lower-casing both sides. An event whose device does not qualify leaves the
  monitor and the world as they were: no state change, no log record, no switch action.
  Handling an event never changes which devices qualify.
\<close>

theorem qualifying_event:
  "(is_target_keyboard (KeyboardMonitor_init vendor model name) device \<longleftrightarrow>
      device ''ID_BUS'' = Some ''usb'' \<and> device ''ID_INPUT_KEYBOARD'' = Some ''1'' \<and>
      lower (get_default device ''ID_VENDOR_ID'' []) = lower vendor \<and>
      lower (get_default device ''ID_MODEL_ID'' []) = lower model)
   \<and> (\<not> is_target_keyboard m device \<longrightarrow> handle_device_event action device t (m, w) = (m, w))
   \<and> is_target_keyboard (fst (handle_device_event action' device' t (m, w))) device
        = is_target_keyboard m device"
proof -
  have "vendor_id (fst (handle_device_event action' device' t (m, w))) = vendor_id m"
    "model_id (fst (handle_device_event action' device' t (m, w))) = model_id m"
    by (simp_all add: handle_device_event_def Let_def)
  then have "is_target_keyboard (fst (handle_device_event action' device' t (m, w))) device
        = is_target_keyboard m device"
    by (rule is_target_cong)
  moreover have "is_target_keyboard (KeyboardMonitor_init vendor model name) device \<longleftrightarrow>
      device ''ID_BUS'' = Some ''usb'' \<and> device ''ID_INPUT_KEYBOARD'' = Some ''1'' \<and>
      lower (get_default device ''ID_VENDOR_ID'' []) = lower vendor \<and>
      lower (get_default device ''ID_MODEL_ID'' []) = lower model"
    by (simp add: is_target_keyboard_def KeyboardMonitor_init_def Let_def)
  ultimately show ?thesis
    by (simp add: handle_not_target)
qed

text \<open>
  The theorem at the target keyboard, whose identifiers differ from the configured ones
  in case only, and at an \<^verbatim>\<open>add\<close> event of the mouse.
\<close>

theorem qualifying_event_witness:
  "is_target_keyboard km0 kbd \<and> \<not> is_target_keyboard km0 mouse
   \<and> handle_device_event ''add'' mouse 1000 (km0, world0) = (km0, world0)"
  using qualifying_event [where m = km0 and device = mouse and action = "''add''" and t = 1000 and w = world0]
    mouse_not_target kbd_is_target(1)
  by simp

text \<open>
  Claim C3. Take a monitor whose debounce delay is the one set by \<^verbatim>\<open>__init__\<close>, and
  a qualifying event at time \<open>t\<close> that is accepted. A second qualifying event at
  \<open>t + \<Delta>\<close>, of any action, is dropped (monitor and world unchanged) exactly when
  \<open>\<Delta> < 0.5\<close>, and accepted (the timestamp becomes \<open>t + \<Delta>\<close>) exactly when
  \<open>\<Delta> \<ge> 0.5\<close>. A dropped event does not move the timestamp: after it, a third
  qualifying event at \<open>t + \<Delta>'\<close> is dropped exactly when \<open>\<Delta>' < 0.5\<close>.
\<close>

theorem debounce_window:
  assumes q: "is_target_keyboard m d1" "is_target_keyboard m d2" "is_target_keyboard m d3"
    and dl: "debounce_delay m = debounce_delay (KeyboardMonitor_init vendor model name)"
    and acc: "\<not> t - last_event_time m < debounce_delay m"
  shows "last_event_time (fst (handle_device_event a1 d1 t (m, w))) = t
     \<and> (handle_device_event a2 d2 (t + \<Delta>) (handle_device_event a1 d1 t (m, w))
          = handle_device_event a1 d1 t (m, w) \<longleftrightarrow> \<Delta> < 0.5)
     \<and> (handle_device_event a2 d2 (t + \<Delta>) (handle_device_event a1 d1 t (m, w))
          \<noteq> handle_device_event a1 d1 t (m, w) \<and>
        last_event_time (fst (handle_device_event a2 d2 (t + \<Delta>) (handle_device_event a1 d1 t (m, w))))
          = t + \<Delta> \<longleftrightarrow> \<Delta> \<ge> 0.5)
     \<and> (\<Delta> < 0.5 \<longrightarrow>
          (handle_device_event a3 d3 (t + \<Delta>') (handle_device_event a2 d2 (t + \<Delta>) (handle_device_event a1 d1 t (m, w)))
             = handle_device_event a1 d1 t (m, w) \<longleftrightarrow> \<Delta>' < 0.5))"
proof -
  obtain m1 w1 where s1: "handle_device_event a1 d1 t (m, w) = (m1, w1)"
    by (cases "handle_device_event a1 d1 t (m, w)")
  from handle_accepted [OF q(1) acc, of a1 w] s1
  have f: "last_event_time m1 = t" "debounce_delay m1 = debounce_delay m"
    "vendor_id m1 = vendor_id m" "model_id m1 = model_id m"
    by simp_all
  have d: "debounce_delay m1 = 0.5"
    using f(2) dl by (simp add: KeyboardMonitor_init_def)
  have q1: "is_target_keyboard m1 d2" "is_target_keyboard m1 d3"
    using q is_target_cong [OF f(3) f(4)] by simp_all
  have drop: "handle_device_event a d' (t + x) (m1, w1) = (m1, w1)" if "x < 0.5" for a d' x
    by (rule handle_debounced) (use that f(1) d in simp)
  have keep: "handle_device_event a d' (t + x) (m1, w1) \<noteq> (m1, w1) \<and>
      last_event_time (fst (handle_device_event a d' (t + x) (m1, w1))) = t + x"
    if "is_target_keyboard m1 d'" "\<not> x < 0.5" for a d' x
  proof -
    have "\<not> (t + x) - last_event_time m1 < debounce_delay m1"
      using f(1) d that(2) by simp
    from handle_accepted(1) [OF that(1) this]
    have l: "last_event_time (fst (handle_device_event a d' (t + x) (m1, w1))) = t + x" .
    have "handle_device_event a d' (t + x) (m1, w1) \<noteq> (m1, w1)"
    proof
      assume "handle_device_event a d' (t + x) (m1, w1) = (m1, w1)"
      with l have "last_event_time m1 = t + x" by simp
      with f(1) that(2) show False by simp
    qed
    with l show ?thesis by simp
  qed
  have k1: "last_event_time (fst (m1, w1)) = t"
    using f(1) by simp
  have k2: "handle_device_event a2 d2 (t + \<Delta>) (m1, w1) = (m1, w1) \<longleftrightarrow> \<Delta> < 0.5"
    using drop [of \<Delta> a2 d2] keep [OF q1(1), of \<Delta> a2] by blast
  have k3: "handle_device_event a2 d2 (t + \<Delta>) (m1, w1) \<noteq> (m1, w1) \<and>
        last_event_time (fst (handle_device_event a2 d2 (t + \<Delta>) (m1, w1))) = t + \<Delta>
          \<longleftrightarrow> \<Delta> \<ge> 0.5"
    using drop [of \<Delta> a2 d2] keep [OF q1(1), of \<Delta> a2] by (cases "\<Delta> < 0.5") simp_all
  have k4: "\<Delta> < 0.5 \<longrightarrow>
          (handle_device_event a3 d3 (t + \<Delta>') (handle_device_event a2 d2 (t + \<Delta>) (m1, w1))
             = (m1, w1) \<longleftrightarrow> \<Delta>' < 0.5)"
  proof
    assume "\<Delta> < 0.5"
    then have "handle_device_event a2 d2 (t + \<Delta>) (m1, w1) = (m1, w1)"
      by (rule drop)
    then show "handle_device_event a3 d3 (t + \<Delta>') (handle_device_event a2 d2 (t + \<Delta>) (m1, w1))
             = (m1, w1) \<longleftrightarrow> \<Delta>' < 0.5"
      using drop [of \<Delta>' a3 d3] keep [OF q1(2), of \<Delta>' a3] by auto
  qed
  show ?thesis
    unfolding s1 using k1 k2 k3 k4 by blast
qed

text \<open>
  The theorem at an \<^verbatim>\<open>add\<close> at 1000 s followed by a \<^verbatim>\<open>remove\<close> 0.1 s later
  (dropped), 0.5 s later (accepted), and 0.6 s later after a dropped one (accepted,
  since the window is counted from the accepted event).
\<close>

theorem debounce_window_witness:
  "is_target_keyboard km0 kbd \<and> \<not> 1000 - last_event_time km0 < debounce_delay km0
   \<and> handle_device_event ''remove'' kbd (1000 + 0.1) (handle_device_event ''add'' kbd 1000 (km0, world0))
       = handle_device_event ''add'' kbd 1000 (km0, world0)
   \<and> handle_device_event ''remove'' kbd (1000 + 0.5) (handle_device_event ''add'' kbd 1000 (km0, world0))
       \<noteq> handle_device_event ''add'' kbd 1000 (km0, world0)
   \<and> handle_device_event ''remove'' kbd (1000 + 0.6)
        (handle_device_event ''remove'' kbd (1000 + 0.1) (handle_device_event ''add'' kbd 1000 (km0, world0)))
       \<noteq> handle_device_event ''add'' kbd 1000 (km0, world0)"
proof -
  have d: "debounce_delay km0 = debounce_delay (KeyboardMonitor_init ''04D9'' ''A1b2'' ''Desk keyboard'')"
    by (simp add: km0_def)
  have a: "\<not> 1000 - last_event_time km0 < debounce_delay km0"
    by (simp add: km0_def KeyboardMonitor_init_def)
  note k = kbd_is_target(1)
  from debounce_window [OF k k k d a, of "''add''" world0 "''remove''" "0.1" "''remove''" "0.6"]
    debounce_window [OF k k k d a, of "''add''" world0 "''remove''" "0.5" "''remove''" "0.6"]
    debounce_window [OF k k k d a, of "''add''" world0 "''remove''" "0.6" "''remove''" "0.6"] k a
  show ?thesis by simp
qed

lemma handle_step:
  assumes "loop m \<noteq> None" "a = ''add'' \<or> a = ''remove''"
    and "handle_device_event a d t (m, w) = (m', w')"
  shows "loop m' = loop m \<and> running m' = running m \<and> switch_calls w' = switch_calls w \<and>
     (keyboard_connected m' = keyboard_connected m \<and> scheduled w' = scheduled w \<or>
      keyboard_connected m \<noteq> Some (a = ''add'') \<and> keyboard_connected m' = Some (a = ''add'') \<and>
      scheduled w' = scheduled w @ [a = ''add''])"
  using assms by (auto simp: handle_device_event_def Let_def logmsg_def split: if_splits)

lemma handle_accepted_step:
  assumes "is_target_keyboard m d" "\<not> t - last_event_time m < debounce_delay m"
    "loop m \<noteq> None" "a = ''add'' \<or> a = ''remove''"
  shows "keyboard_connected (fst (handle_device_event a d t (m, w))) = Some (a = ''add'')"
    "scheduled (snd (handle_device_event a d t (m, w))) =
       scheduled w @ (if keyboard_connected m = Some (a = ''add'') then [] else [a = ''add''])"
  using assms by (auto simp: handle_device_event_def Let_def logmsg_def)

lemma monitor_loop_alternates:
  assumes "loop m \<noteq> None"
  shows "\<exists>new. scheduled (snd (monitor_loop ps (m, w))) = scheduled w @ new \<and>
     alternating (keyboard_connected m) new \<and>
     keyboard_connected (fst (monitor_loop ps (m, w))) =
       (if new = [] then keyboard_connected m else Some (last new))"
  using assms
proof (induction ps arbitrary: m w)
  case Nil
  then show ?case by simp
next
  case (Cons p ps)
  show ?case
  proof (cases "running m")
    case False
    then show ?thesis by (simp add: logmsg_def)
  next
    case True
    note run = True
    show ?thesis
    proof (cases p)
      case Timeout
      with run Cons show ?thesis by simp
    next
      case PollError
      with run show ?thesis by (simp add: logmsg_def)
    next
      case (Event a d t)
      show ?thesis
      proof (cases "a = ''add'' \<or> a = ''remove''")
        case False
        with run Event Cons show ?thesis by simp
      next
        case True
        obtain m1 w1 where s: "handle_device_event a d t (m, w) = (m1, w1)"
          by (cases "handle_device_event a d t (m, w)")
        note st = handle_step [OF Cons.prems True s]
        then have l1: "loop m1 \<noteq> None" using Cons.prems by simp
        from Cons.IH [OF l1, of w1] obtain new1 where
          ih: "scheduled (snd (monitor_loop ps (m1, w1))) = scheduled w1 @ new1"
            "alternating (keyboard_connected m1) new1"
            "keyboard_connected (fst (monitor_loop ps (m1, w1))) =
               (if new1 = [] then keyboard_connected m1 else Some (last new1))"
          by blast
        have e: "monitor_loop (p # ps) (m, w) = monitor_loop ps (m1, w1)"
          using run Event True s by simp
        from st show ?thesis
        proof (elim conjE disjE)
          assume "keyboard_connected m1 = keyboard_connected m" "scheduled w1 = scheduled w"
          with ih e show ?thesis by auto
        next
          assume c: "keyboard_connected m \<noteq> Some (a = ''add'')"
            "keyboard_connected m1 = Some (a = ''add'')"
            "scheduled w1 = scheduled w @ [a = ''add'']"
          have "scheduled (snd (monitor_loop (p # ps) (m, w))) = scheduled w @ ((a = ''add'') # new1)"
            "alternating (keyboard_connected m) ((a = ''add'') # new1)"
            "keyboard_connected (fst (monitor_loop (p # ps) (m, w))) =
               (if (a = ''add'') # new1 = [] then keyboard_connected m else Some (last ((a = ''add'') # new1)))"
            using ih c e by simp_all
          then show ?thesis by blast
        qed
      qed
    qed
  qed
qed

lemma monitor_loop_same_direction:
  assumes "keyboard_connected m = Some c"
    and "\<forall>p \<in> set ps. \<forall>d t. p \<noteq> Event (if c then ''remove'' else ''add'') d t"
  shows "scheduled (snd (monitor_loop ps (m, w))) = scheduled w \<and>
         keyboard_connected (fst (monitor_loop ps (m, w))) = Some c"
  using assms
proof (induction ps arbitrary: m w)
  case Nil
  then show ?case by simp
next
  case (Cons p ps)
  show ?case
  proof (cases "running m")
    case False
    with Cons.prems show ?thesis by (simp add: logmsg_def)
  next
    case True
    note run = True
    show ?thesis
    proof (cases p)
      case Timeout
      with run Cons show ?thesis by simp
    next
      case PollError
      with run Cons.prems show ?thesis by (simp add: logmsg_def)
    next
      case (Event a d t)
      show ?thesis
      proof (cases "a = ''add'' \<or> a = ''remove''")
        case False
        with run Event Cons show ?thesis by simp
      next
        case True
        obtain m1 w1 where s: "handle_device_event a d t (m, w) = (m1, w1)"
          by (cases "handle_device_event a d t (m, w)")
        have dir: "c = (a = ''add'')"
          using Cons.prems(2) Event True by (cases c) auto
        have "keyboard_connected m1 = Some c \<and> scheduled w1 = scheduled w"
          using s Cons.prems(1) dir
          by (auto simp: handle_device_event_def Let_def logmsg_def split: if_splits)
        moreover have "monitor_loop (p # ps) (m, w) = monitor_loop ps (m1, w1)"
          using run Event True s by simp
        ultimately show ?thesis
          using Cons.IH [of m1 w1] Cons.prems(2) by simp
      qed
    qed
  qed
qed

text \<open>
  The scenario of the specification, with the clock at 1000 s: attach, attach 100 ms
  later, detach 900 ms after the first. Two switch actions are handed to the event loop.
\<close>

lemma scenario:
  "monitor_loop [Event ''add'' kbd 1000, Event ''add'' kbd 1000.1, Timeout, Event ''remove'' kbd 1000.9]
     (km1, world0) =
   (km1\<lparr>keyboard_connected := Some False, last_event_time := 1000.9\<rparr>,
    \<lparr>trace = [], logged = [(INFO, UsbKeyboardConnected ''Holtek'' ''USB_Keyboard''),
                           (INFO, UsbKeyboardDisconnected ''Holtek'' ''USB_Keyboard'')],
     switch_calls = [], scheduled = [True, False]\<rparr>)"
  by (simp add: km_defs handle_device_event_def world0_def logmsg_def Let_def)

text \<open>
  Claim C5. An accepted qualifying \<^verbatim>\<open>add\<close> or \<^verbatim>\<open>remove\<close> event, with the event
  loop set, hands a switch action to the loop exactly when its target state differs from
  the tracked state, and the tracked state becomes the target state. Over any run of the
  polling loop in which no event of the opposite direction arrives, no switch action is
  produced and the tracked state stays. Over any run of the polling loop at all, the
  switch actions produced alternate, the first one differing from the tracked state at
  the start, and the tracked state at the end is the last action produced: two actions
  for the same state never follow each other.
\<close>

theorem observation_idempotent:
  "(is_target_keyboard m d \<and> \<not> t - last_event_time m < debounce_delay m \<and> loop m \<noteq> None \<and>
      (a = ''add'' \<or> a = ''remove'') \<longrightarrow>
      keyboard_connected (fst (handle_device_event a d t (m, w))) = Some (a = ''add'') \<and>
      scheduled (snd (handle_device_event a d t (m, w))) =
        scheduled w @ (if keyboard_connected m = Some (a = ''add'') then [] else [a = ''add'']))
   \<and> (keyboard_connected m = Some c \<and>
       (\<forall>p \<in> set ps. \<forall>d t. p \<noteq> Event (if c then ''remove'' else ''add'') d t) \<longrightarrow>
        scheduled (snd (monitor_loop ps (m, w))) = scheduled w \<and>
        keyboard_connected (fst (monitor_loop ps (m, w))) = Some c)
   \<and> (loop m \<noteq> None \<longrightarrow>
        scheduled (snd (monitor_loop ps (m, w))) =
          scheduled w @ drop (length (scheduled w)) (scheduled (snd (monitor_loop ps (m, w)))) \<and>
        alternating (keyboard_connected m)
          (drop (length (scheduled w)) (scheduled (snd (monitor_loop ps (m, w))))) \<and>
        keyboard_connected (fst (monitor_loop ps (m, w))) =
          (if drop (length (scheduled w)) (scheduled (snd (monitor_loop ps (m, w)))) = []
           then keyboard_connected m
           else Some (last (scheduled (snd (monitor_loop ps (m, w)))))))"
proof (intro conjI impI)
  assume h: "is_target_keyboard m d \<and> \<not> t - last_event_time m < debounce_delay m \<and> loop m \<noteq> None \<and>
      (a = ''add'' \<or> a = ''remove'')"
  then show "keyboard_connected (fst (handle_device_event a d t (m, w))) = Some (a = ''add'')"
    by (simp add: handle_accepted_step(1))
  from h show "scheduled (snd (handle_device_event a d t (m, w))) =
        scheduled w @ (if keyboard_connected m = Some (a = ''add'') then [] else [a = ''add''])"
    by (intro handle_accepted_step(2)) simp_all
next
  assume h: "keyboard_connected m = Some c \<and>
       (\<forall>p \<in> set ps. \<forall>d t. p \<noteq> Event (if c then ''remove'' else ''add'') d t)"
  then have *: "scheduled (snd (monitor_loop ps (m, w))) = scheduled w \<and>
        keyboard_connected (fst (monitor_loop ps (m, w))) = Some c"
    by (intro monitor_loop_same_direction) simp_all
  from * show "scheduled (snd (monitor_loop ps (m, w))) = scheduled w" by simp
  from * show "keyboard_connected (fst (monitor_loop ps (m, w))) = Some c" by simp
next
  assume l: "loop m \<noteq> None"
  from monitor_loop_alternates [OF l, of ps w] obtain new where
    n: "scheduled (snd (monitor_loop ps (m, w))) = scheduled w @ new"
      "alternating (keyboard_connected m) new"
      "keyboard_connected (fst (monitor_loop ps (m, w))) =
         (if new = [] then keyboard_connected m else Some (last new))"
    by blast
  then have d: "drop (length (scheduled w)) (scheduled (snd (monitor_loop ps (m, w)))) = new"
    by simp
  show "scheduled (snd (monitor_loop ps (m, w))) =
          scheduled w @ drop (length (scheduled w)) (scheduled (snd (monitor_loop ps (m, w))))"
    using n(1) d by simp
  show "alternating (keyboard_connected m)
          (drop (length (scheduled w)) (scheduled (snd (monitor_loop ps (m, w)))))"
    using n(2) d by simp
  show "keyboard_connected (fst (monitor_loop ps (m, w))) =
          (if drop (length (scheduled w)) (scheduled (snd (monitor_loop ps (m, w)))) = []
           then keyboard_connected m
           else Some (last (scheduled (snd (monitor_loop ps (m, w))))))"
    using n(1,3) d by (cases "new = []") simp_all
qed

text \<open>
  The theorem at the monitor that found the keyboard absent: an accepted \<^verbatim>\<open>add\<close>
  produces the action for present; a run of \<^verbatim>\<open>remove\<close> events produces none; the
  actions of the scenario above alternate.
\<close>

theorem observation_idempotent_witness:
  "is_target_keyboard km1 kbd \<and> \<not> 1000 - last_event_time km1 < debounce_delay km1 \<and> loop km1 \<noteq> None
   \<and> keyboard_connected (fst (handle_device_event ''add'' kbd 1000 (km1, world0))) = Some True
   \<and> scheduled (snd (handle_device_event ''add'' kbd 1000 (km1, world0))) = [True]
   \<and> scheduled (snd (monitor_loop [Event ''remove'' kbd 1000, Timeout, Event ''remove'' kbd 1001]
        (km1, world0))) = []
   \<and> alternating (Some False) (scheduled (snd (monitor_loop
        [Event ''add'' kbd 1000, Event ''add'' kbd 1000.1, Timeout, Event ''remove'' kbd 1000.9]
        (km1, world0))))"
proof -
  have f: "\<not> 1000 - last_event_time km1 < debounce_delay km1" "loop km1 \<noteq> None"
    "keyboard_connected km1 = Some False" "scheduled world0 = []"
    by (simp_all add: km1_def km0_def KeyboardMonitor_init_def world0_def)
  from observation_idempotent [where m = km1 and d = kbd and t = 1000 and a = "''add''" and w = world0 and c = False
        and ps = "[Event ''remove'' kbd 1000, Timeout, Event ''remove'' kbd 1001]"]
    observation_idempotent [where m = km1 and d = kbd and t = 1000 and a = "''add''" and w = world0 and c = False
        and ps = "[Event ''add'' kbd 1000, Event ''add'' kbd 1000.1, Timeout, Event ''remove'' kbd 1000.9]"]
    f kbd_is_target(2)
  show ?thesis by simp
qed

lemma switch_input_fields:
  assumes "switch_input b conn tv w = (r, tv', w')"
  shows "(r = Return True \<or> r = Return False) \<and> switch_calls w' = switch_calls w @ [conn] \<and>
         scheduled w' = scheduled w"
  using switch_input_shape [OF assms] by auto

lemma scan_devices_result:
  assumes "scan_devices b devices (m, tv, w) = (r, m', tv', w')"
  shows "r = Return () \<and>
         m' = m\<lparr>keyboard_connected := Some (\<exists>d \<in> set devices. initial_match m d)\<rparr> \<and>
         switch_calls w' = switch_calls w @ [\<exists>d \<in> set devices. initial_match m d] \<and>
         scheduled w' = scheduled w"
  using assms
proof (induction devices)
  case Nil
  obtain r1 tv1 w1 where s: "switch_input b False tv (logmsg INFO (KeyboardNotConnected (keyboard_name m)) w) = (r1, tv1, w1)"
    using prod_cases3 by blast
  from switch_input_fields [OF s] Nil s show ?case
    by (auto simp: logmsg_def)
next
  case (Cons d ds)
  show ?case
  proof (cases "initial_match m d")
    case True
    obtain r1 tv1 w1 where s: "switch_input b True tv (logmsg INFO (KeyboardCurrentlyConnected (keyboard_name m)) w) = (r1, tv1, w1)"
      using prod_cases3 by blast
    from switch_input_fields [OF s] Cons.prems s True show ?thesis
      by (auto simp: logmsg_def)
  next
    case False
    with Cons show ?thesis by simp
  qed
qed

lemma monitor_loop_switch_calls:
  "switch_calls (snd (monitor_loop ps (m, w))) = switch_calls w"
proof (induction ps arbitrary: m w)
  case Nil
  then show ?case by simp
next
  case (Cons p ps)
  have h: "switch_calls (snd (handle_device_event a d t (m, w))) = switch_calls w" for a d t
    by (simp add: handle_device_event_def Let_def logmsg_def)
  show ?case
  proof (cases p)
    case Timeout
    with Cons show ?thesis by (simp add: logmsg_def)
  next
    case PollError
    then show ?thesis by (simp add: logmsg_def)
  next
    case (Event a d t)
    obtain m1 w1 where s: "handle_device_event a d t (m, w) = (m1, w1)"
      by (cases "handle_device_event a d t (m, w)")
    with h [of a d t] have "switch_calls w1 = switch_calls w" by simp
    with Event s Cons [of m1 w1] Cons [of m w] show ?thesis
      by (simp add: logmsg_def)
  qed
qed

text \<open>
  Claim C6. For every enumeration of devices and every behaviour of the library, the
  part of \<^verbatim>\<open>start_monitoring\<close> before the polling loop returns, leaves the tracked
  state at present exactly when the enumeration holds a device that passes the inline
  test, has entered \<^verbatim>\<open>switch_input\<close> exactly once, with that state as argument,
  and has handed nothing to the event loop. The polling loop starts from that state and
  enters \<^verbatim>\<open>switch_input\<close> no further time by itself.
\<close>

theorem startup_resolution:
  assumes "start_monitoring_setup b devices (m, tv, w) = (r, m', tv', w')"
  shows "r = Return ()
     \<and> keyboard_connected m' = Some (\<exists>d \<in> set devices. initial_match m d)
     \<and> switch_calls w' = switch_calls w @ [\<exists>d \<in> set devices. initial_match m d]
     \<and> scheduled w' = scheduled w
     \<and> start_monitoring b devices polls (m, tv, w) =
         (Return (), fst (monitor_loop polls (m', w')), tv', snd (monitor_loop polls (m', w')))
     \<and> switch_calls (snd (monitor_loop polls (m', w'))) = switch_calls w'"
proof -
  let ?m1 = "m\<lparr>loop := Some EventLoop\<rparr>"
  let ?w1 = "logmsg INFO CheckingInitialState (logmsg INFO (VendorProduct (vendor_id m) (model_id m))
                 (logmsg INFO (WatchingFor (keyboard_name m)) (logmsg INFO StartingMonitoring w)))"
  obtain r2 m2 tv2 w2 where s: "scan_devices b devices (?m1, tv, ?w1) = (r2, m2, tv2, w2)"
    using prod_cases4 by blast
  have im: "initial_match ?m1 d = initial_match m d" for d
    by (simp add: initial_match_def)
  note sc = scan_devices_result [OF s, unfolded im]
  have e: "(r, m', tv', w') = (Return (), m2, tv2, logmsg INFO PressCtrlC (logmsg INFO MonitorStarted w2))"
    using assms s sc by (simp add: start_monitoring_setup_def check_initial_state_def Let_def)
  then have f: "r = Return ()" "m' = m2" "tv' = tv2" "w' = logmsg INFO PressCtrlC (logmsg INFO MonitorStarted w2)"
    by simp_all
  have "start_monitoring b devices polls (m, tv, w) =
         (Return (), fst (monitor_loop polls (m', w')), tv', snd (monitor_loop polls (m', w')))"
    using assms f(1) by (simp add: start_monitoring_def Let_def split_beta)
  with f sc monitor_loop_switch_calls [of polls m' w'] show ?thesis
    by (simp add: logmsg_def)
qed

text \<open>
  The theorem at an enumeration with the mouse and the keyboard, the television refusing
  the connection, and at an enumeration with the mouse alone.
\<close>

theorem startup_resolution_witness:
  "fst (start_monitoring_setup (raising [Connect]) [mouse, kbd] (km0, tv0, world0)) = Return ()
   \<and> keyboard_connected (fst (snd (start_monitoring_setup (raising [Connect]) [mouse, kbd]
        (km0, tv0, world0)))) = Some True
   \<and> switch_calls (snd (snd (snd (start_monitoring_setup (raising [Connect]) [mouse, kbd]
        (km0, tv0, world0))))) = [True]
   \<and> scheduled (snd (snd (snd (start_monitoring_setup (raising [Connect]) [mouse, kbd]
        (km0, tv0, world0))))) = []
   \<and> keyboard_connected (fst (snd (start_monitoring_setup (raising []) [mouse]
        (km0, tv0, world0)))) = Some False
   \<and> switch_calls (snd (snd (snd (start_monitoring_setup (raising []) [mouse]
        (km0, tv0, world0))))) = [False]"
proof -
  have p: "(\<exists>d \<in> set [mouse, kbd]. initial_match km0 d) = True"
    "(\<exists>d \<in> set [mouse]. initial_match km0 d) = False"
    by (simp_all add: km_defs)
  have w: "switch_calls world0 = []" "scheduled world0 = []"
    by (simp_all add: world0_def)
  have e: "x = (fst x, fst (snd x), fst (snd (snd x)), snd (snd (snd x)))"
    for x :: "unit result \<times> keyboard_monitor \<times> tv_switcher \<times> world"
    by simp
  from startup_resolution [OF e, of "raising [Connect]" "[mouse, kbd]" km0 tv0 world0]
    startup_resolution [OF e, of "raising []" "[mouse]" km0 tv0 world0]
  show ?thesis unfolding p w by simp
qed

end
